theory Spec2Isabelle
  imports Main
begin

section \<open>Python values and exceptions\<close>

text \<open>
  The handlers of \<^verbatim>\<open>server/main.py\<close> are embedded as pure functions. A handler that
  raises returns \<open>Inl\<close> of the error, one that returns gives \<open>Inr\<close> of its response, and
  every call of a collaborator (the datastore, the file service, the logger, the Wix
  services) is written down, in order, in the list of calls returned beside the result.
\<close>

text \<open>
  The exceptions that occur, each with the text that \<^verbatim>\<open>str()\<close> gives for it:
  \<open>KeyError\<close> of a dict subscript, \<open>TypeError\<close> of an operator, and \<open>Exception\<close> for an
  exception of class \<^verbatim>\<open>Exception\<close> raised by a collaborator.
\<close>

datatype py_exception = KeyError string | TypeError string | Exception string

fun str_exc :: "py_exception \<Rightarrow> string" where
  "str_exc (KeyError m) = m"
| "str_exc (TypeError m) = m"
| "str_exc (Exception m) = m"

text \<open>
  The two exceptions the handlers raise themselves: the subscript
  \<^verbatim>\<open>session_data["code_verifier"]\<close> on a session without the key, whose text is the key
  between single quotes, and \<^verbatim>\<open>None + str\<close>.
\<close>

definition missing_code_verifier :: py_exception where
  "missing_code_verifier = KeyError (CHR 0x27 # ''code_verifier'' @ [CHR 0x27])"

definition none_plus_str :: py_exception where
  "none_plus_str =
     TypeError (''unsupported operand type(s) for +: ''
       @ CHR 0x27 # ''NoneType'' @ CHR 0x27 # '' and '' @ CHR 0x27 # ''str'' @ [CHR 0x27])"

text \<open>What an f-string puts for \<^verbatim>\<open>{x}\<close> when \<^verbatim>\<open>x\<close> is a string or \<^verbatim>\<open>None\<close>.\<close>

fun fstr :: "string option \<Rightarrow> string" where
  "fstr None = ''None''"
| "fstr (Some s) = s"

text \<open>
  Truthiness of an optional list, an optional bool, an optional object and an optional
  string.
\<close>

fun truthy_list :: "'a list option \<Rightarrow> bool" where
  "truthy_list None = False"
| "truthy_list (Some xs) = (xs \<noteq> [])"

fun truthy_bool :: "bool option \<Rightarrow> bool" where
  "truthy_bool None = False"
| "truthy_bool (Some b) = b"

fun truthy_obj :: "('a \<Rightarrow> bool) \<Rightarrow> 'a option \<Rightarrow> bool" where
  "truthy_obj t None = False"
| "truthy_obj t (Some x) = t x"

fun truthy_str :: "string option \<Rightarrow> bool" where
  "truthy_str None = False"
| "truthy_str (Some s) = (s \<noteq> [])"

text \<open>
  \<^verbatim>\<open>str.lower\<close>, on the letters A to Z. A header value is decoded as Latin-1, where no
  other character has a lower case among a to z, so that the comparison of a lowered
  header word with an ASCII word is the one Python makes.
\<close>

definition lower_char :: "char \<Rightarrow> char" where
  "lower_char ch =
     (case map_of (zip ''ABCDEFGHIJKLMNOPQRSTUVWXYZ'' ''abcdefghijklmnopqrstuvwxyz'') ch of
        Some l \<Rightarrow> l
      | None \<Rightarrow> ch)"

definition lower :: "string \<Rightarrow> string" where
  "lower s = map lower_char s"

text \<open>
  What ends a request without a response of the handler: an
  \<^verbatim>\<open>HTTPException(status_code, detail, headers)\<close>, which the framework turns into the
  response of that status, the framework's \<^verbatim>\<open>RequestValidationError\<close>, answered with
  status 422, or any other exception, which the handler does not catch.
\<close>

datatype error =
    HTTPException (status_code: nat) (detail: "string option")
      (headers: "(string \<times> string) list option")
  | RequestValidationError
  | Unhandled py_exception

section \<open>The token gate\<close>

record HTTPAuthorizationCredentials =
  scheme :: string
  credentials :: string

text \<open>
  \<^verbatim>\<open>bearer_scheme = HTTPBearer()\<close> is the dependency of \<open>validate_token\<close>. The class is
  the framework's (\<^verbatim>\<open>fastapi.security\<close>): it splits the \<^verbatim>\<open>Authorization\<close> header at
  its first space, raises 403 when the header, the scheme or the token is missing or
  empty and when the scheme, lowered, is not \<^verbatim>\<open>bearer\<close>, and returns the credentials
  otherwise.
\<close>

definition get_authorization_scheme_param :: "string option \<Rightarrow> string \<times> string" where
  "get_authorization_scheme_param authorization_header_value =
     (case authorization_header_value of
        None \<Rightarrow> ([], [])
      | Some v \<Rightarrow>
          if v = [] then ([], [])
          else (takeWhile (\<lambda>ch. ch \<noteq> CHR '' '') v,
                drop 1 (dropWhile (\<lambda>ch. ch \<noteq> CHR '' '') v)))"

definition bearer_scheme :: "string option \<Rightarrow> error + HTTPAuthorizationCredentials" where
  "bearer_scheme authorization_value =
     (case get_authorization_scheme_param authorization_value of
        (scheme', credentials') \<Rightarrow>
          if \<not> (truthy_str authorization_value \<and> scheme' \<noteq> [] \<and> credentials' \<noteq> [])
          then Inl (HTTPException 403 (Some ''Not authenticated'') None)
          else if lower scheme' \<noteq> ''bearer''
          then Inl (HTTPException 403 (Some ''Invalid authentication credentials'') None)
          else Inr \<lparr>scheme = scheme', credentials = credentials'\<rparr>)"

text \<open>
  \<open>BEARER_TOKEN\<close> is the module constant read from the environment at import; the
  module asserts that it is not \<^verbatim>\<open>None\<close>, so it is a string here.
\<close>

definition validate_token ::
  "string \<Rightarrow> HTTPAuthorizationCredentials \<Rightarrow> error + HTTPAuthorizationCredentials" where
  "validate_token BEARER_TOKEN creds =
     (if scheme creds \<noteq> ''Bearer'' \<or> credentials creds \<noteq> BEARER_TOKEN
      then Inl (HTTPException 401 (Some ''Invalid or missing token'') None)
      else Inr creds)"

section \<open>The document API\<close>

text \<open>
  Modelled from the spec: \<^verbatim>\<open>models.models\<close> and \<^verbatim>\<open>models.api\<close> are not among the
  sources. Of \<^verbatim>\<open>DocumentMetadata\<close> the spec and the handler name the field
  \<open>source\<close> and its value \<open>file\<close>; the request and response classes have the fields the
  handlers read and set. Documents, queries, query results, filters and uploaded files
  are opaque payloads (type variables).
\<close>

datatype Source = Source_email | Source_file | Source_chat

record DocumentMetadata =
  source :: "Source option"

datatype 'doc UpsertRequest = UpsertRequest (documents: "'doc list")

datatype UpsertResponse = UpsertResponse "string list"

datatype 'q QueryRequest = QueryRequest (queries: "'q list")

datatype 'r QueryResponse = QueryResponse "'r list"

record 'f DeleteRequest =
  ids :: "string list option"
  filter_req :: "'f option"
  delete_all :: "bool option"

datatype DeleteResponse = DeleteResponse bool

text \<open>
  The collaborators of the document API, each a function that returns or raises: the
  three operations of the global \<^verbatim>\<open>datastore\<close>, \<^verbatim>\<open>DocumentMetadata.parse_raw\<close>,
  \<^verbatim>\<open>get_document_from_file\<close>, and the truthiness of a filter object (its class is
  not among the sources).
\<close>

record ('doc, 'q, 'r, 'f, 'file) collaborators =
  datastore_upsert :: "'doc list \<Rightarrow> py_exception + string list"
  datastore_query :: "'q list \<Rightarrow> py_exception + 'r list"
  datastore_delete ::
    "string list option \<Rightarrow> 'f option \<Rightarrow> bool option \<Rightarrow> py_exception + bool"
  parse_raw :: "string \<Rightarrow> py_exception + DocumentMetadata"
  get_document_from_file :: "'file \<Rightarrow> DocumentMetadata \<Rightarrow> py_exception + 'doc"
  filter_truthy :: "'f \<Rightarrow> bool"

text \<open>The calls a handler makes, as they appear in its trace.\<close>

datatype ('doc, 'q, 'f, 'file) call =
    Get_document_from_file 'file DocumentMetadata
  | Datastore_upsert "'doc list"
  | Datastore_query "'q list"
  | Datastore_delete "string list option" "'f option" "bool option"
  | Logger_error py_exception

fun is_datastore_call :: "('doc, 'q, 'f, 'file) call \<Rightarrow> bool" where
  "is_datastore_call (Datastore_upsert _) = True"
| "is_datastore_call (Datastore_query _) = True"
| "is_datastore_call (Datastore_delete _ _ _) = True"
| "is_datastore_call _ = False"

text \<open>
  The first \<^verbatim>\<open>try\<close> of \<^verbatim>\<open>upsert_file\<close>: the metadata string is parsed when it is
  truthy, the bare \<^verbatim>\<open>except\<close> replaces any failure by the default.
\<close>

definition upsert_file_metadata_obj ::
  "('doc, 'q, 'r, 'f, 'file) collaborators \<Rightarrow> string option \<Rightarrow> DocumentMetadata" where
  "upsert_file_metadata_obj c metadata =
     (case metadata of
        None \<Rightarrow> \<lparr>source = Some Source_file\<rparr>
      | Some s \<Rightarrow>
          (if s \<noteq> []
           then (case parse_raw c s of
                   Inr m \<Rightarrow> m
                 | Inl e \<Rightarrow> \<lparr>source = Some Source_file\<rparr>)
           else \<lparr>source = Some Source_file\<rparr>))"

definition upsert_file ::
  "('doc, 'q, 'r, 'f, 'file) collaborators \<Rightarrow> 'file \<Rightarrow> string option \<Rightarrow>
   (error + UpsertResponse) \<times> ('doc, 'q, 'f, 'file) call list" where
  "upsert_file c file_arg metadata =
     (let metadata_obj = upsert_file_metadata_obj c metadata in
      case get_document_from_file c file_arg metadata_obj of
        Inl e \<Rightarrow> (Inl (Unhandled e), [Get_document_from_file file_arg metadata_obj])
      | Inr document \<Rightarrow>
          (case datastore_upsert c [document] of
             Inr ids' \<Rightarrow>
               (Inr (UpsertResponse ids'),
                [Get_document_from_file file_arg metadata_obj, Datastore_upsert [document]])
           | Inl e \<Rightarrow>
               (Inl (HTTPException 500 (Some (''str('' @ str_exc e @ '')'')) None),
                [Get_document_from_file file_arg metadata_obj, Datastore_upsert [document],
                 Logger_error e])))"

definition upsert ::
  "('doc, 'q, 'r, 'f, 'file) collaborators \<Rightarrow> 'doc UpsertRequest \<Rightarrow>
   (error + UpsertResponse) \<times> ('doc, 'q, 'f, 'file) call list" where
  "upsert c request =
     (case datastore_upsert c (documents request) of
        Inr ids' \<Rightarrow> (Inr (UpsertResponse ids'), [Datastore_upsert (documents request)])
      | Inl e \<Rightarrow>
          (Inl (HTTPException 500 (Some ''Internal Service Error'') None),
           [Datastore_upsert (documents request), Logger_error e]))"

definition query_main ::
  "('doc, 'q, 'r, 'f, 'file) collaborators \<Rightarrow> 'q QueryRequest \<Rightarrow>
   (error + 'r QueryResponse) \<times> ('doc, 'q, 'f, 'file) call list" where
  "query_main c request =
     (case datastore_query c (queries request) of
        Inr results \<Rightarrow> (Inr (QueryResponse results), [Datastore_query (queries request)])
      | Inl e \<Rightarrow>
          (Inl (HTTPException 500 (Some ''Internal Service Error'') None),
           [Datastore_query (queries request), Logger_error e]))"

definition query ::
  "('doc, 'q, 'r, 'f, 'file) collaborators \<Rightarrow> 'q QueryRequest \<Rightarrow>
   (error + 'r QueryResponse) \<times> ('doc, 'q, 'f, 'file) call list" where
  "query c request =
     (case datastore_query c (queries request) of
        Inr results \<Rightarrow> (Inr (QueryResponse results), [Datastore_query (queries request)])
      | Inl e \<Rightarrow>
          (Inl (HTTPException 500 (Some ''Internal Service Error'') None),
           [Datastore_query (queries request), Logger_error e]))"

definition delete ::
  "('doc, 'q, 'r, 'f, 'file) collaborators \<Rightarrow> 'f DeleteRequest \<Rightarrow>
   (error + DeleteResponse) \<times> ('doc, 'q, 'f, 'file) call list" where
  "delete c request =
     (if \<not> (truthy_list (ids request) \<or> truthy_obj (filter_truthy c) (filter_req request)
             \<or> truthy_bool (delete_all request))
      then (Inl (HTTPException 400 (Some ''One of ids, filter, or delete_all is required'') None),
            [])
      else (case datastore_delete c (ids request) (filter_req request) (delete_all request) of
              Inr success \<Rightarrow>
                (Inr (DeleteResponse success),
                 [Datastore_delete (ids request) (filter_req request) (delete_all request)])
            | Inl e \<Rightarrow>
                (Inl (HTTPException 500 (Some ''Internal Service Error'') None),
                 [Datastore_delete (ids request) (filter_req request) (delete_all request),
                  Logger_error e])))"

subsection \<open>The gated applications\<close>

text \<open>
  \<^verbatim>\<open>app\<close> and \<^verbatim>\<open>sub_app\<close> are built with \<^verbatim>\<open>dependencies=[Depends(validate_token)]\<close>.
  A request is the value of its \<^verbatim>\<open>Authorization\<close> header, if it has one, and its body.
  The framework's request handler first reads and decodes the body: a body that is not
  JSON ends the request with a \<^verbatim>\<open>RequestValidationError\<close>, any other failure to read it
  with the 400 error. Then it solves the dependencies, \<open>bearer_scheme\<close> and with its
  result \<open>validate_token\<close>, whose exception ends the request. Then it validates the
  decoded body against the parameters of the handler, and calls the handler when they
  validate.
\<close>

datatype 'a body =
    Json_invalid
  | Unreadable
  | Invalid
  | Valid 'a

record 'a http_request =
  authorization_header :: "string option"
  request_body :: "'a body"

datatype ('doc, 'q, 'f, 'file) app_route =
    Post_upsert_file 'file "string option"
  | Post_upsert "'doc UpsertRequest"
  | Post_query "'q QueryRequest"
  | Delete_delete "'f DeleteRequest"

datatype 'r response =
    Upsert_response UpsertResponse
  | Query_response "'r QueryResponse"
  | Delete_response DeleteResponse

definition as_response ::
  "('a \<Rightarrow> 'r response) \<Rightarrow> (error + 'a) \<times> 'c list \<Rightarrow> (error + 'r response) \<times> 'c list" where
  "as_response wrap out = (map_sum id wrap (fst out), snd out)"

definition solve_dependencies ::
  "string \<Rightarrow> string option \<Rightarrow> error + HTTPAuthorizationCredentials" where
  "solve_dependencies BEARER_TOKEN authorization_value =
     (case bearer_scheme authorization_value of
        Inl e \<Rightarrow> Inl e
      | Inr creds \<Rightarrow> validate_token BEARER_TOKEN creds)"

definition request_handler ::
  "string \<Rightarrow> ('a \<Rightarrow> (error + 'b) \<times> 'c list) \<Rightarrow> 'a http_request \<Rightarrow> (error + 'b) \<times> 'c list" where
  "request_handler BEARER_TOKEN endpoint request =
     (case request_body request of
        Json_invalid \<Rightarrow> (Inl RequestValidationError, [])
      | Unreadable \<Rightarrow>
          (Inl (HTTPException 400 (Some ''There was an error parsing the body'') None), [])
      | Invalid \<Rightarrow>
          (case solve_dependencies BEARER_TOKEN (authorization_header request) of
             Inl e \<Rightarrow> (Inl e, [])
           | Inr _ \<Rightarrow> (Inl RequestValidationError, []))
      | Valid args \<Rightarrow>
          (case solve_dependencies BEARER_TOKEN (authorization_header request) of
             Inl e \<Rightarrow> (Inl e, [])
           | Inr _ \<Rightarrow> endpoint args))"

definition app ::
  "string \<Rightarrow> ('doc, 'q, 'r, 'f, 'file) collaborators \<Rightarrow>
   ('doc, 'q, 'f, 'file) app_route http_request \<Rightarrow>
   (error + 'r response) \<times> ('doc, 'q, 'f, 'file) call list" where
  "app BEARER_TOKEN c =
     request_handler BEARER_TOKEN
       (\<lambda>route. case route of
          Post_upsert_file file_arg metadata \<Rightarrow>
            as_response Upsert_response (upsert_file c file_arg metadata)
        | Post_upsert request \<Rightarrow> as_response Upsert_response (upsert c request)
        | Post_query request \<Rightarrow> as_response Query_response (query_main c request)
        | Delete_delete request \<Rightarrow> as_response Delete_response (delete c request))"

definition sub_app ::
  "string \<Rightarrow> ('doc, 'q, 'r, 'f, 'file) collaborators \<Rightarrow> 'q QueryRequest http_request \<Rightarrow>
   (error + 'r response) \<times> ('doc, 'q, 'f, 'file) call list" where
  "sub_app BEARER_TOKEN c =
     request_handler BEARER_TOKEN (\<lambda>request. as_response Query_response (query c request))"

section \<open>The OAuth bridge\<close>

text \<open>
  \<^verbatim>\<open>os.environ\<close> and the session are dicts from strings to strings; \<^verbatim>\<open>d.get(k)\<close> is
  the lookup \<open>d k\<close>, with \<open>None\<close> for a missing key.
\<close>

type_synonym environ = "string \<rightharpoonup> string"

type_synonym session = "string \<rightharpoonup> string"

definition get_oauth_params ::
  "string \<Rightarrow> string \<Rightarrow> string \<Rightarrow> string \<Rightarrow> string \<Rightarrow> (string \<times> string) list" where
  "get_oauth_params response_type client_id scope state redirect_uri =
     [(''response_type'', response_type),
      (''client_id'', client_id),
      (''scope'', scope),
      (''state'', state),
      (''redirect_uri'', redirect_uri)]"

text \<open>
  The services of \<^verbatim>\<open>services.wix_oauth\<close>, which are not among the sources, as
  functions that return or raise. The member tokens are opaque.
\<close>

record 'tok wix =
  wix_get_callback_url ::
    "string \<Rightarrow> string \<Rightarrow> string option \<Rightarrow> py_exception + string \<times> string"
  get_member_access_token :: "string \<Rightarrow> string \<Rightarrow> py_exception + 'tok \<times> 'tok"
  wix_get_subscription :: "'tok \<Rightarrow> py_exception + string"

datatype 'tok wix_call =
    Wix_get_callback_url string string "string option"
  | Get_member_access_token string string
  | Wix_get_subscription 'tok

text \<open>A rendered template: its name and the context values other than the request.\<close>

datatype TemplateResponse = TemplateResponse string "(string \<times> string option) list"

text \<open>\<^verbatim>\<open>GET /login/\<close>: the five query parameters are stored in the session.\<close>

definition login :: "(string \<times> string) list \<Rightarrow> session \<Rightarrow> TemplateResponse \<times> session" where
  "login oauth_params session_data =
     (TemplateResponse ''login.html'' [], session_data ++ map_of oauth_params)"

text \<open>
  \<^verbatim>\<open>POST /login/\<close>: it always raises, the 303 redirect when the upstream call returned.
  The exception is built without a detail, which is then the phrase of the status.
\<close>

definition login_post ::
  "'tok wix \<Rightarrow> string \<Rightarrow> string \<Rightarrow> session \<Rightarrow> error \<times> session \<times> 'tok wix_call list" where
  "login_post w username password session_data =
     (let state = session_data ''state'' in
      case wix_get_callback_url w username password state of
        Inl e \<Rightarrow> (Unhandled e, session_data, [Wix_get_callback_url username password state])
      | Inr (wix_callback_url, code_verifier) \<Rightarrow>
          (HTTPException 303 (Some ''See Other'') (Some [(''Location'', ''../callback/'')]),
           session_data(''wix_callback_url'' \<mapsto> wix_callback_url,
                        ''code_verifier'' \<mapsto> code_verifier),
           [Wix_get_callback_url username password state]))"

definition callback :: "session \<Rightarrow> TemplateResponse" where
  "callback session_data =
     TemplateResponse ''callback.html''
       [(''wix_callback_url'', session_data ''wix_callback_url'')]"

text \<open>
  The body of \<^verbatim>\<open>POST /callback/\<close> has the fields \<^verbatim>\<open>code\<close> and \<^verbatim>\<open>state\<close>; the
  content of its \<^verbatim>\<open>JSONResponse\<close> is the message and the url, in this order.
\<close>

record SubscriptionRequest =
  req_code :: string
  req_state :: string

datatype JSONResponse = JSONResponse string string

text \<open>
  \<^verbatim>\<open>redirect_uri + f"..."\<close> raises \<^verbatim>\<open>TypeError\<close> when \<^verbatim>\<open>redirect_uri\<close> is \<^verbatim>\<open>None\<close>,
  and \<^verbatim>\<open>session_data["code_verifier"]\<close> raises \<^verbatim>\<open>KeyError\<close> when the key is missing:
  it is evaluated as an argument, before \<^verbatim>\<open>get_member_access_token\<close> is called.
\<close>

definition subscription ::
  "environ \<Rightarrow> 'tok wix \<Rightarrow> SubscriptionRequest \<Rightarrow> session \<Rightarrow>
   (error + JSONResponse) \<times> 'tok wix_call list" where
  "subscription environ w request session_data =
     (let state = session_data ''state'';
          openai_code = environ ''OPENAI_CODE''
      in case session_data ''redirect_uri'' of
           None \<Rightarrow>
             (Inl (Unhandled none_plus_str), [])
         | Some redirect_uri \<Rightarrow>
             (let url = redirect_uri @ ''?state='' @ fstr state @ ''&code='' @ fstr openai_code;
                  wix_code = req_code request
              in case session_data ''code_verifier'' of
                   None \<Rightarrow> (Inl (Unhandled missing_code_verifier), [])
                 | Some code_verifier \<Rightarrow>
                     (case get_member_access_token w wix_code code_verifier of
                        Inl e \<Rightarrow>
                          (Inl (Unhandled e), [Get_member_access_token wix_code code_verifier])
                      | Inr (member_access_token, member_refresh_token) \<Rightarrow>
                          (case wix_get_subscription w member_access_token of
                             Inl e \<Rightarrow>
                               (Inl (Unhandled e),
                                [Get_member_access_token wix_code code_verifier,
                                 Wix_get_subscription member_access_token])
                           | Inr tier \<Rightarrow>
                               (if tier = ''Elite''
                                then (Inr (JSONResponse ''You are an Elite member.'' url),
                                      [Get_member_access_token wix_code code_verifier,
                                       Wix_get_subscription member_access_token])
                                else (Inr (JSONResponse ''You are not an Elite member.''
                                             ''https://www.kaiwu.info''),
                                      [Get_member_access_token wix_code code_verifier,
                                       Wix_get_subscription member_access_token]))))))"

subsection \<open>The sessions that requests build\<close>




subsection \<open>The authorization endpoint\<close>

record token_response =
  access_token :: "string option"
  token_type :: string

text \<open>The form fields are strings; a variable that is not set compares unequal to each.\<close>

definition authorization ::
  "environ \<Rightarrow> string \<Rightarrow> string \<Rightarrow> string \<Rightarrow> error + token_response" where
  "authorization environ client_id client_secret code =
     (if Some client_id \<noteq> environ ''CLIENT_ID''
         \<or> Some client_secret \<noteq> environ ''CLIENT_SECRET''
         \<or> Some code \<noteq> environ ''OPENAI_CODE''
      then Inl (HTTPException 401 (Some ''Invalid or missing token'') None)
      else Inr \<lparr>access_token = environ ''BEARER_TOKEN'', token_type = ''bearer''\<rparr>)"

section \<open>Sample collaborators\<close>

text \<open>
  Concrete collaborators, on which the handlers are evaluated below: a datastore that
  answers, one whose every operation raises, and an identity provider with an Elite and
  a Basic member.
\<close>

definition sample_collaborators ::
  "(string, string, string, string, string) collaborators" where
  "sample_collaborators =
     \<lparr>datastore_upsert = (\<lambda>docs. Inr (map (\<lambda>d. ''id-'' @ d) docs)),
      datastore_query = (\<lambda>qs. Inr (map (\<lambda>q. ''result of '' @ q) qs)),
      datastore_delete = (\<lambda>i f d. Inr True),
      parse_raw = (\<lambda>s. if s = ''email'' then Inr \<lparr>source = Some Source_email\<rparr>
                         else Inl (Exception ''validation error'')),
      get_document_from_file = (\<lambda>f m. Inr (''text of '' @ f)),
      filter_truthy = (\<lambda>f. True)\<rparr>"

definition failing_collaborators ::
  "(string, string, string, string, string) collaborators" where
  "failing_collaborators =
     \<lparr>datastore_upsert = (\<lambda>docs. Inl (Exception ''connection to db-1:6379 refused'')),
      datastore_query = (\<lambda>qs. Inl (Exception ''connection to db-1:6379 refused'')),
      datastore_delete = (\<lambda>i f d. Inl (Exception ''connection to db-1:6379 refused'')),
      parse_raw = (\<lambda>s. Inl (Exception ''validation error'')),
      get_document_from_file = (\<lambda>f m. Inr (''text of '' @ f)),
      filter_truthy = (\<lambda>f. True)\<rparr>"

definition sample_wix :: "string wix" where
  "sample_wix =
     \<lparr>wix_get_callback_url = (\<lambda>u p s. Inr (''https://wix.example/cb'', ''verifier'')),
      get_member_access_token = (\<lambda>c v. Inr (''access-'' @ c, ''refresh-'' @ c)),
      wix_get_subscription =
        (\<lambda>t. if t = ''access-elite'' then Inr ''Elite'' else Inr ''Basic'')\<rparr>"

definition sample_environ :: environ where
  "sample_environ =
     map_of [(''BEARER_TOKEN'', ''secret''), (''CLIENT_ID'', ''plugin''),
             (''CLIENT_SECRET'', ''hush''), (''OPENAI_CODE'', ''issued'')]"

definition sample_session :: session where
  "sample_session =
     map_of [(''state'', ''xyz''), (''redirect_uri'', ''https://chat.example/cb''),
             (''code_verifier'', ''verifier'')]"

section \<open>The token gate guards every route of the document API\<close>

text \<open>
  The dependencies reject a header whose scheme is not \<^verbatim>\<open>Bearer\<close> or whose token is
  not the configured one: \<open>bearer_scheme\<close> with 403 when the scheme or the token is
  missing or the scheme is not \<^verbatim>\<open>bearer\<close> in any letter case, \<open>validate_token\<close> with 401
  in what remains.
\<close>

lemma solve_dependencies_rejects:
  "get_authorization_scheme_param authorization_value = (scheme', credentials') \<Longrightarrow>
   scheme' \<noteq> ''Bearer'' \<or> credentials' \<noteq> BEARER_TOKEN \<Longrightarrow>
   solve_dependencies BEARER_TOKEN authorization_value
     = Inl (if scheme' = [] \<or> credentials' = []
            then HTTPException 403 (Some ''Not authenticated'') None
            else if lower scheme' \<noteq> ''bearer''
            then HTTPException 403 (Some ''Invalid authentication credentials'') None
            else HTTPException 401 (Some ''Invalid or missing token'') None)"
  by (cases authorization_value)
     (auto simp: solve_dependencies_def bearer_scheme_def validate_token_def
        get_authorization_scheme_param_def split: if_splits)

text \<open>
  Claim C1 says that a request whose credentials have a scheme other than \<^verbatim>\<open>Bearer\<close>
  is rejected with 401. A request with the header \<^verbatim>\<open>Basic secret\<close> is rejected with 403:
  \<open>bearer_scheme\<close> raises before \<open>validate_token\<close> is called.
\<close>

theorem basic_scheme_gets_403_counterexample:
  "fst (get_authorization_scheme_param (Some ''Basic secret'')) = ''Basic''
   \<and> app ''secret'' sample_collaborators
        \<lparr>authorization_header = Some ''Basic secret'',
         request_body = Valid (Post_query (QueryRequest [''hello'']))\<rparr>
     = (Inl (HTTPException 403 (Some ''Invalid authentication credentials'') None), [])"
  by (simp add: app_def request_handler_def solve_dependencies_def bearer_scheme_def
        get_authorization_scheme_param_def lower_def lower_char_def)

text \<open>
  Claim C1, amended. A request to a route of \<^verbatim>\<open>app\<close> or \<^verbatim>\<open>sub_app\<close> whose
  \<^verbatim>\<open>Authorization\<close> header is missing, or has a scheme other than \<^verbatim>\<open>Bearer\<close> or a token
  other than the configured one, is rejected before the handler of the route runs, and
  the trace is empty: no call of the datastore, nor of any other collaborator. The error
  is the 401 of \<open>validate_token\<close> when the scheme is \<^verbatim>\<open>bearer\<close> in some letter case and
  the token is not empty; it is 403 when the header, the scheme or the token is missing
  or the scheme is another word; and a body that cannot be read or decoded is answered
  with 400 or 422 before the header is looked at.
\<close>

theorem gate_rejects:
  "get_authorization_scheme_param authorization_value = (scheme', credentials') \<Longrightarrow>
   scheme' \<noteq> ''Bearer'' \<or> credentials' \<noteq> BEARER_TOKEN \<Longrightarrow>
   app BEARER_TOKEN c \<lparr>authorization_header = authorization_value, request_body = b\<rparr>
     = (Inl (case b of
               Json_invalid \<Rightarrow> RequestValidationError
             | Unreadable \<Rightarrow>
                 HTTPException 400 (Some ''There was an error parsing the body'') None
             | _ \<Rightarrow>
                 if scheme' = [] \<or> credentials' = []
                 then HTTPException 403 (Some ''Not authenticated'') None
                 else if lower scheme' \<noteq> ''bearer''
                 then HTTPException 403 (Some ''Invalid authentication credentials'') None
                 else HTTPException 401 (Some ''Invalid or missing token'') None), [])
   \<and> sub_app BEARER_TOKEN c \<lparr>authorization_header = authorization_value, request_body = b'\<rparr>
     = (Inl (case b' of
               Json_invalid \<Rightarrow> RequestValidationError
             | Unreadable \<Rightarrow>
                 HTTPException 400 (Some ''There was an error parsing the body'') None
             | _ \<Rightarrow>
                 if scheme' = [] \<or> credentials' = []
                 then HTTPException 403 (Some ''Not authenticated'') None
                 else if lower scheme' \<noteq> ''bearer''
                 then HTTPException 403 (Some ''Invalid authentication credentials'') None
                 else HTTPException 401 (Some ''Invalid or missing token'') None), [])"
  using solve_dependencies_rejects [of authorization_value scheme' credentials' BEARER_TOKEN]
  by (simp add: app_def sub_app_def request_handler_def split: body.splits)

theorem gate_rejects_witness:
  "app ''secret'' sample_collaborators
        \<lparr>authorization_header = Some ''Bearer guess'',
         request_body = Valid (Delete_delete
           \<lparr>ids = Some [''doc-1''], filter_req = None, delete_all = Some False\<rparr>)\<rparr>
     = (Inl (HTTPException 401 (Some ''Invalid or missing token'') None), [])
   \<and> sub_app ''secret'' sample_collaborators
        \<lparr>authorization_header = Some ''bearer secret'',
         request_body = Valid (QueryRequest [''hello''])\<rparr>
     = (Inl (HTTPException 401 (Some ''Invalid or missing token'') None), [])
   \<and> app ''secret'' sample_collaborators
        \<lparr>authorization_header = None,
         request_body = Valid (Post_upsert (UpsertRequest [''text'']))\<rparr>
     = (Inl (HTTPException 403 (Some ''Not authenticated'') None), [])
   \<and> app ''secret'' sample_collaborators
        \<lparr>authorization_header = Some ''Basic secret'',
         request_body = Valid (Post_upsert_file ''notes.txt'' None)\<rparr>
     = (Inl (HTTPException 403 (Some ''Invalid authentication credentials'') None), [])
   \<and> app ''secret'' sample_collaborators
        \<lparr>authorization_header = Some ''Bearer guess'', request_body = Json_invalid\<rparr>
     = (Inl RequestValidationError, [])"
proof -
  have p1: "get_authorization_scheme_param (Some ''Bearer guess'') = (''Bearer'', ''guess'')"
    and p2: "get_authorization_scheme_param (Some ''bearer secret'') = (''bearer'', ''secret'')"
    and p3: "get_authorization_scheme_param None = ([], [])"
    and p4: "get_authorization_scheme_param (Some ''Basic secret'') = (''Basic'', ''secret'')"
    by (simp_all add: get_authorization_scheme_param_def)
  have l: "lower ''bearer'' = ''bearer''" "lower ''Basic'' \<noteq> ''bearer''" "lower ''Bearer'' = ''bearer''"
    by (simp_all add: lower_def lower_char_def)
  note g1 = gate_rejects [OF p1, of "''secret''" sample_collaborators
      "Valid (Delete_delete \<lparr>ids = Some [''doc-1''], filter_req = None, delete_all = Some False\<rparr>)"
      Json_invalid]
  note g2 = gate_rejects [OF p2, of "''secret''" sample_collaborators Json_invalid
      "Valid (QueryRequest [''hello''])"]
  note g3 = gate_rejects [OF p3, of "''secret''" sample_collaborators
      "Valid (Post_upsert (UpsertRequest [''text'']))" Json_invalid]
  note g4 = gate_rejects [OF p4, of "''secret''" sample_collaborators
      "Valid (Post_upsert_file ''notes.txt'' None)" Json_invalid]
  note g5 = gate_rejects [OF p1, of "''secret''" sample_collaborators Json_invalid Json_invalid]
  from g1 g2 g3 g4 g5 l show ?thesis by simp
qed

section \<open>The authorization endpoint\<close>

text \<open>
  Claim C2. \<open>authorization\<close> returns the configured bearer token with token type
  \<^verbatim>\<open>bearer\<close> exactly when the client id, the client secret and the code each equal
  their configured value, and raises the 401 error exactly when one of them does not.
\<close>

theorem authorization_iff:
  "(authorization environ client_id client_secret code'
      = Inr \<lparr>access_token = environ ''BEARER_TOKEN'', token_type = ''bearer''\<rparr>)
     = (environ ''CLIENT_ID'' = Some client_id
        \<and> environ ''CLIENT_SECRET'' = Some client_secret
        \<and> environ ''OPENAI_CODE'' = Some code')
   \<and> (authorization environ client_id client_secret code'
        = Inl (HTTPException 401 (Some ''Invalid or missing token'') None))
     = (\<not> (environ ''CLIENT_ID'' = Some client_id
           \<and> environ ''CLIENT_SECRET'' = Some client_secret
           \<and> environ ''OPENAI_CODE'' = Some code'))"
  by (auto simp: authorization_def)

theorem authorization_iff_witness:
  "authorization sample_environ ''plugin'' ''hush'' ''issued''
     = Inr \<lparr>access_token = Some ''secret'', token_type = ''bearer''\<rparr>
   \<and> authorization sample_environ ''plugin'' ''hush'' ''issueD''
     = Inl (HTTPException 401 (Some ''Invalid or missing token'') None)"
  using authorization_iff [of sample_environ "''plugin''" "''hush''" "''issued''"]
        authorization_iff [of sample_environ "''plugin''" "''hush''" "''issueD''"]
  by (simp add: sample_environ_def)

section \<open>Delete\<close>

text \<open>
  Claim C3. A delete request with no ids, no filter and no \<^verbatim>\<open>delete_all\<close> (the field
  absent, or at its default \<^verbatim>\<open>False\<close>) gets the 400 error, and the trace is empty: the
  datastore is not called.
\<close>

theorem delete_nothing_given:
  "ids request = None \<Longrightarrow> filter_req request = None \<Longrightarrow>
   delete_all request = None \<or> delete_all request = Some False \<Longrightarrow>
   delete c request
     = (Inl (HTTPException 400 (Some ''One of ids, filter, or delete_all is required'') None), [])"
  by (auto simp: delete_def)

theorem delete_nothing_given_witness:
  "ids \<lparr>ids = None, filter_req = (None :: string option), delete_all = Some False\<rparr> = None
   \<and> delete sample_collaborators \<lparr>ids = None, filter_req = None, delete_all = Some False\<rparr>
     = (Inl (HTTPException 400 (Some ''One of ids, filter, or delete_all is required'') None), [])
   \<and> delete sample_collaborators \<lparr>ids = None, filter_req = None, delete_all = None\<rparr>
     = (Inl (HTTPException 400 (Some ''One of ids, filter, or delete_all is required'') None), [])"
  using delete_nothing_given
          [of "\<lparr>ids = None, filter_req = None, delete_all = Some False\<rparr>" sample_collaborators]
        delete_nothing_given
          [of "\<lparr>ids = None, filter_req = None, delete_all = None\<rparr>" sample_collaborators]
  by simp

text \<open>
  Claim C4 says that a delete request in which one of the three criteria is present
  reaches the datastore. It does not when the criterion that is present is falsy: with
  \<^verbatim>\<open>ids = []\<close> and nothing else the handler raises the 400 error and calls nothing.
\<close>

theorem delete_present_but_empty_ids_counterexample:
  "ids \<lparr>ids = Some [], filter_req = (None :: string option), delete_all = None\<rparr> = Some []
   \<and> delete sample_collaborators \<lparr>ids = Some [], filter_req = None, delete_all = None\<rparr>
     = (Inl (HTTPException 400 (Some ''One of ids, filter, or delete_all is required'') None), [])"
  by (simp add: delete_def)

text \<open>
  Claim C4, amended. When one of the criteria is truthy (a non-empty list of ids, a
  truthy filter, \<^verbatim>\<open>delete_all = True\<close>), the handler calls the datastore's delete
  exactly once, with the ids, the filter and \<^verbatim>\<open>delete_all\<close> of the request as they
  are; it returns the datastore's result as \<^verbatim>\<open>success\<close> when the call returns, and the
  generic 500 error when the call raises.
\<close>

theorem delete_truthy_calls_datastore_once:
  "truthy_list (ids request) \<or> truthy_obj (filter_truthy c) (filter_req request)
     \<or> truthy_bool (delete_all request) \<Longrightarrow>
   filter is_datastore_call (snd (delete c request))
     = [Datastore_delete (ids request) (filter_req request) (delete_all request)]
   \<and> fst (delete c request)
     = (case datastore_delete c (ids request) (filter_req request) (delete_all request) of
          Inr success \<Rightarrow> Inr (DeleteResponse success)
        | Inl e \<Rightarrow> Inl (HTTPException 500 (Some ''Internal Service Error'') None))"
  by (auto simp: delete_def split: sum.splits)

theorem delete_truthy_calls_datastore_once_witness:
  "truthy_list (ids \<lparr>ids = Some [''doc-1''], filter_req = (None :: string option), delete_all = Some False\<rparr>)
   \<and> filter is_datastore_call
        (snd (delete sample_collaborators
               \<lparr>ids = Some [''doc-1''], filter_req = None, delete_all = Some False\<rparr>))
     = [Datastore_delete (Some [''doc-1'']) None (Some False)]
   \<and> fst (delete sample_collaborators
             \<lparr>ids = Some [''doc-1''], filter_req = None, delete_all = Some False\<rparr>)
     = Inr (DeleteResponse True)"
  using delete_truthy_calls_datastore_once
          [of "\<lparr>ids = Some [''doc-1''], filter_req = None, delete_all = Some False\<rparr>"
              sample_collaborators]
  by (simp add: sample_collaborators_def)

text \<open>
  Claim C10. The check of the criteria is by truthiness: when each of the three is
  absent or falsy (ids \<^verbatim>\<open>None\<close> or \<^verbatim>\<open>[]\<close>, no filter or a falsy one, \<^verbatim>\<open>delete_all\<close>
  \<^verbatim>\<open>None\<close> or \<^verbatim>\<open>False\<close>), the handler raises the 400 error and the datastore is not
  called, although a criterion may have been supplied.
\<close>

theorem delete_falsy_criteria:
  "ids request = None \<or> ids request = Some [] \<Longrightarrow>
   filter_req request = None
     \<or> (\<exists>f. filter_req request = Some f \<and> \<not> filter_truthy c f) \<Longrightarrow>
   delete_all request = None \<or> delete_all request = Some False \<Longrightarrow>
   delete c request
     = (Inl (HTTPException 400 (Some ''One of ids, filter, or delete_all is required'') None), [])"
  by (auto simp: delete_def)

theorem delete_falsy_criteria_witness:
  "ids \<lparr>ids = Some [], filter_req = (None :: string option), delete_all = Some False\<rparr> = Some []
   \<and> delete_all \<lparr>ids = Some [], filter_req = (None :: string option), delete_all = Some False\<rparr>
     = Some False
   \<and> delete sample_collaborators \<lparr>ids = Some [], filter_req = None, delete_all = Some False\<rparr>
     = (Inl (HTTPException 400 (Some ''One of ids, filter, or delete_all is required'') None), [])"
  using delete_falsy_criteria
          [of "\<lparr>ids = Some [], filter_req = None, delete_all = Some False\<rparr>" sample_collaborators]
  by simp

section \<open>Upsert of a file\<close>

text \<open>
  Claim C5. When the metadata string of an upsert-file request does not parse, the
  handler goes on with the default metadata, whose source is \<open>file\<close>: the metadata
  object is the one of a request without metadata, the whole run equals the run without
  metadata, the file service is called with the default, and when the file service and
  the datastore return, the response is the ids of the datastore.
\<close>

theorem upsert_file_unparseable_metadata:
  "parse_raw c s = Inl e \<Longrightarrow>
   upsert_file_metadata_obj c (Some s) = \<lparr>source = Some Source_file\<rparr>
   \<and> upsert_file_metadata_obj c (Some s) = upsert_file_metadata_obj c None
   \<and> upsert_file c file_arg (Some s) = upsert_file c file_arg None
   \<and> hd (snd (upsert_file c file_arg (Some s)))
       = Get_document_from_file file_arg \<lparr>source = Some Source_file\<rparr>
   \<and> (\<forall>document ids'.
         get_document_from_file c file_arg \<lparr>source = Some Source_file\<rparr> = Inr document
         \<longrightarrow> datastore_upsert c [document] = Inr ids'
         \<longrightarrow> upsert_file c file_arg (Some s)
             = (Inr (UpsertResponse ids'),
                [Get_document_from_file file_arg \<lparr>source = Some Source_file\<rparr>,
                 Datastore_upsert [document]]))"
  by (auto simp: upsert_file_def upsert_file_metadata_obj_def Let_def split: sum.splits)

theorem upsert_file_unparseable_metadata_witness:
  "parse_raw sample_collaborators ''{source: 7'' = Inl (Exception ''validation error'')
   \<and> upsert_file sample_collaborators ''notes.txt'' (Some ''{source: 7'')
     = upsert_file sample_collaborators ''notes.txt'' None
   \<and> upsert_file sample_collaborators ''notes.txt'' (Some ''{source: 7'')
     = (Inr (UpsertResponse [''id-text of notes.txt'']),
        [Get_document_from_file ''notes.txt'' \<lparr>source = Some Source_file\<rparr>,
         Datastore_upsert [''text of notes.txt'']])"
proof -
  have p: "parse_raw sample_collaborators ''{source: 7'' = Inl (Exception ''validation error'')"
    by (simp add: sample_collaborators_def)
  have g: "get_document_from_file sample_collaborators ''notes.txt'' \<lparr>source = Some Source_file\<rparr>
             = Inr ''text of notes.txt''"
    by (simp add: sample_collaborators_def)
  have u: "datastore_upsert sample_collaborators [''text of notes.txt'']
             = Inr [''id-text of notes.txt'']"
    by (simp add: sample_collaborators_def)
  note th = upsert_file_unparseable_metadata [OF p, of "''notes.txt''"]
  from th have eq: "upsert_file sample_collaborators ''notes.txt'' (Some ''{source: 7'')
     = upsert_file sample_collaborators ''notes.txt'' None"
    by blast
  from th g u have run: "upsert_file sample_collaborators ''notes.txt'' (Some ''{source: 7'')
     = (Inr (UpsertResponse [''id-text of notes.txt'']),
        [Get_document_from_file ''notes.txt'' \<lparr>source = Some Source_file\<rparr>,
         Datastore_upsert [''text of notes.txt'']])"
    by blast
  show ?thesis
    by (intro conjI) (rule p eq run)+
qed

section \<open>Exceptions of the datastore\<close>

text \<open>
  The handlers \<open>upsert\<close>, \<open>query_main\<close>, \<open>query\<close> and \<open>delete\<close> answer an exception
  of the datastore with the 500 error whose detail is the fixed text
  \<^verbatim>\<open>Internal Service Error\<close>; \<open>upsert_file\<close> puts the text of the exception into the
  detail.
\<close>

lemma upsert_500_generic:
  "datastore_upsert c (documents request) = Inl e \<Longrightarrow>
   fst (upsert c request) = Inl (HTTPException 500 (Some ''Internal Service Error'') None)"
  by (simp add: upsert_def)

lemma query_500_generic:
  "datastore_query c (queries request) = Inl e \<Longrightarrow>
   fst (query_main c request) = Inl (HTTPException 500 (Some ''Internal Service Error'') None)
   \<and> fst (query c request) = Inl (HTTPException 500 (Some ''Internal Service Error'') None)"
  by (simp add: query_main_def query_def)

lemma delete_500_generic:
  "truthy_list (ids request) \<or> truthy_obj (filter_truthy c) (filter_req request)
     \<or> truthy_bool (delete_all request) \<Longrightarrow>
   datastore_delete c (ids request) (filter_req request) (delete_all request) = Inl e \<Longrightarrow>
   fst (delete c request) = Inl (HTTPException 500 (Some ''Internal Service Error'') None)"
  by (auto simp: delete_def)

lemma upsert_file_500_detail:
  "get_document_from_file c file_arg (upsert_file_metadata_obj c metadata) = Inr document \<Longrightarrow>
   datastore_upsert c [document] = Inl e \<Longrightarrow>
   fst (upsert_file c file_arg metadata)
     = Inl (HTTPException 500 (Some (''str('' @ str_exc e @ '')'')) None)"
  by (simp add: upsert_file_def)

text \<open>
  Claim C8 says that each of the four operations answers an exception of the datastore
  with a fixed generic message that carries nothing of the exception. \<open>upsert_file\<close>
  does not: with a datastore that raises \<^verbatim>\<open>connection to db-1:6379 refused\<close>, the
  detail of its 500 error is that text between \<^verbatim>\<open>str(\<close> and \<^verbatim>\<open>)\<close>.
\<close>

theorem upsert_file_leaks_exception_text:
  "upsert_file failing_collaborators ''notes.txt'' None
     = (Inl (HTTPException 500 (Some ''str(connection to db-1:6379 refused)'') None),
        [Get_document_from_file ''notes.txt'' \<lparr>source = Some Source_file\<rparr>,
         Datastore_upsert [''text of notes.txt''],
         Logger_error (Exception ''connection to db-1:6379 refused'')])"
  by (simp add: upsert_file_def upsert_file_metadata_obj_def failing_collaborators_def)

section \<open>The two query handlers\<close>

text \<open>
  Claim C9. \<open>query_main\<close> of the main application and \<open>query\<close> of the sub-application
  give the same result and the same trace on every request and every datastore: one call
  of the datastore's query with the queries of the request, its results on return and the
  generic 500 error on an exception. The two routes agree behind the token gate as well,
  on every header and every body.
\<close>

theorem query_handlers_agree:
  "query_main c request = query c request
   \<and> filter is_datastore_call (snd (query_main c request)) = [Datastore_query (queries request)]
   \<and> filter is_datastore_call (snd (query c request)) = [Datastore_query (queries request)]
   \<and> fst (query c request)
     = (case datastore_query c (queries request) of
          Inr results \<Rightarrow> Inr (QueryResponse results)
        | Inl e \<Rightarrow> Inl (HTTPException 500 (Some ''Internal Service Error'') None))
   \<and> app BEARER_TOKEN c
        \<lparr>authorization_header = authorization_value, request_body = map_body Post_query b\<rparr>
     = sub_app BEARER_TOKEN c \<lparr>authorization_header = authorization_value, request_body = b\<rparr>"
  by (cases b)
     (auto simp: query_main_def query_def app_def sub_app_def request_handler_def
        split: sum.splits)

theorem query_handlers_agree_witness:
  "query_main sample_collaborators (QueryRequest [''hello''])
     = (Inr (QueryResponse [''result of hello'']), [Datastore_query [''hello'']])
   \<and> query sample_collaborators (QueryRequest [''hello''])
     = (Inr (QueryResponse [''result of hello'']), [Datastore_query [''hello'']])
   \<and> fst (query failing_collaborators (QueryRequest [''hello'']))
     = Inl (HTTPException 500 (Some ''Internal Service Error'') None)
   \<and> fst (query_main failing_collaborators (QueryRequest [''hello'']))
     = Inl (HTTPException 500 (Some ''Internal Service Error'') None)"
proof -
  have a: "query sample_collaborators (QueryRequest [''hello''])
     = (Inr (QueryResponse [''result of hello'']), [Datastore_query [''hello'']])"
    by (simp add: query_def sample_collaborators_def)
  have b: "fst (query failing_collaborators (QueryRequest [''hello'']))
     = Inl (HTTPException 500 (Some ''Internal Service Error'') None)"
    by (simp add: query_def failing_collaborators_def)
  from a b
    query_handlers_agree [of sample_collaborators "QueryRequest [''hello'']"]
    query_handlers_agree [of failing_collaborators "QueryRequest [''hello'']"]
  show ?thesis by simp
qed

section \<open>The subscription exchange\<close>

text \<open>
  Claim C6. When the session holds the redirect uri, the state and the code verifier,
  the issued code is configured and the upstream calls return the tier, the response of
  \<open>subscription\<close> for the tier \<^verbatim>\<open>Elite\<close> carries the url made of the stored redirect uri,
  the stored state as it is and the configured issued code; for any other tier it carries
  the fixed fallback url and the non-elite message.
\<close>

theorem subscription_tier_decides:
  "session_data ''redirect_uri'' = Some redirect_uri \<Longrightarrow>
   session_data ''state'' = Some state \<Longrightarrow>
   session_data ''code_verifier'' = Some code_verifier \<Longrightarrow>
   environ ''OPENAI_CODE'' = Some openai_code \<Longrightarrow>
   get_member_access_token w (req_code request) code_verifier
     = Inr (member_access_token, member_refresh_token) \<Longrightarrow>
   wix_get_subscription w member_access_token = Inr tier \<Longrightarrow>
   fst (subscription environ w request session_data)
     = (if tier = ''Elite''
        then Inr (JSONResponse ''You are an Elite member.''
                    (redirect_uri @ ''?state='' @ state @ ''&code='' @ openai_code))
        else Inr (JSONResponse ''You are not an Elite member.'' ''https://www.kaiwu.info''))"
  by (simp add: subscription_def)

theorem subscription_tier_decides_witness:
  "fst (subscription sample_environ sample_wix \<lparr>req_code = ''elite'', req_state = ''xyz''\<rparr>
          sample_session)
     = Inr (JSONResponse ''You are an Elite member.''
              ''https://chat.example/cb?state=xyz&code=issued'')
   \<and> fst (subscription sample_environ sample_wix \<lparr>req_code = ''other'', req_state = ''xyz''\<rparr>
          sample_session)
     = Inr (JSONResponse ''You are not an Elite member.'' ''https://www.kaiwu.info'')"
proof -
  have s: "sample_session ''redirect_uri'' = Some ''https://chat.example/cb''"
    "sample_session ''state'' = Some ''xyz''"
    "sample_session ''code_verifier'' = Some ''verifier''"
    by (simp_all add: sample_session_def)
  have e: "sample_environ ''OPENAI_CODE'' = Some ''issued''"
    by (simp add: sample_environ_def)
  have t1: "get_member_access_token sample_wix (req_code \<lparr>req_code = ''elite'', req_state = ''xyz''\<rparr>)
              ''verifier'' = Inr (''access-elite'', ''refresh-elite'')"
    by (simp add: sample_wix_def)
  have t2: "get_member_access_token sample_wix (req_code \<lparr>req_code = ''other'', req_state = ''xyz''\<rparr>)
              ''verifier'' = Inr (''access-other'', ''refresh-other'')"
    by (simp add: sample_wix_def)
  have u1: "wix_get_subscription sample_wix ''access-elite'' = Inr ''Elite''"
    by (simp add: sample_wix_def)
  have u2: "wix_get_subscription sample_wix ''access-other'' = Inr ''Basic''"
    by (simp add: sample_wix_def)
  note elite = subscription_tier_decides
    [where session_data = sample_session and environ = sample_environ and w = sample_wix
       and request = "\<lparr>req_code = ''elite'', req_state = ''xyz''\<rparr>", OF s e t1 u1]
  note other = subscription_tier_decides
    [where session_data = sample_session and environ = sample_environ and w = sample_wix
       and request = "\<lparr>req_code = ''other'', req_state = ''xyz''\<rparr>", OF s e t2 u2]
  from elite other show ?thesis by simp
qed

text \<open>
  The state stored by \<open>login\<close> is the one in the url: after \<open>login\<close> with the five
  parameters and a \<open>login_post\<close> that ends in the redirect, an Elite response of
  \<open>subscription\<close> has the url made of the redirect uri and the state of the login.
\<close>

lemma state_echoed_after_login:
  "login_post w username password
     (snd (login (get_oauth_params response_type client_id scope state redirect_uri) session0))
     = (HTTPException 303 (Some ''See Other'') (Some [(''Location'', ''../callback/'')]),
        session1, calls) \<Longrightarrow>
   environ ''OPENAI_CODE'' = Some openai_code \<Longrightarrow>
   subscription environ w request session1 = (Inr (JSONResponse message url), calls') \<Longrightarrow>
   message = ''You are an Elite member.'' \<Longrightarrow>
   url = redirect_uri @ ''?state='' @ state @ ''&code='' @ openai_code"
  by (auto simp: login_post_def login_def get_oauth_params_def subscription_def Let_def
           split: sum.splits prod.splits option.splits if_splits)







end
